theory Spec2Isabelle
  imports Complex_Main
begin

section \<open>Errors, tensors and the world\<close>

text \<open>
  Every exception of the Python source is a value. The constructor tells which
  kind of exception the interpreter or a library raises at that place.
\<close>

datatype error =
    KeyError string
  | ValueError string
  | TypeError
  | FileNotFoundError string
  | CudaError
  | ShapeError
  | IndexError
  | XGBoostError
  | BaselineShapeError
  | MaskShapeError
  | SamplesError

text \<open>
  A 2-D tensor. The column count is kept beside the rows, so that a tensor with
  no rows still has a shape. Floating point is not modelled: entries are reals.
\<close>

datatype tensor = Tensor (ncols: nat) (trows: "real list list")

definition nrows :: "tensor \<Rightarrow> nat" where
  "nrows t = length (trows t)"

definition shape :: "tensor \<Rightarrow> nat \<times> nat" where
  "shape t = (nrows t, ncols t)"

definition wf_tensor :: "tensor \<Rightarrow> bool" where
  "wf_tensor t = list_all (\<lambda>r. length r = ncols t) (trows t)"

definition zeros :: "nat \<Rightarrow> nat \<Rightarrow> tensor" where
  "zeros n m = Tensor m (replicate n (replicate m 0))"

definition zeros_like :: "tensor \<Rightarrow> tensor" where
  "zeros_like t = Tensor (ncols t) (map (\<lambda>r. map (\<lambda>_. 0) r) (trows t))"

definition all_zero :: "tensor \<Rightarrow> bool" where
  "all_zero t = list_all (list_all (\<lambda>v. v = 0)) (trows t)"

text \<open>
  What a call can change besides its result: the position in torch's global random
  generator, and a trace of the calls made, which is how the claims about calls
  that are or are not made are stated. \<open>keep\<close> and \<open>draw\<close> are the generator's
  outputs by position: the Bernoulli decisions of dropout and the integers that
  shuffling consumes.
\<close>

datatype event = EvEmbed | EvPredict | EvSampler | EvAttribute int | EvRandperm

record world =
  keep :: "nat \<Rightarrow> bool"
  draw :: "nat \<Rightarrow> nat"
  rng_pos :: nat
  trace :: "event list"

type_synonym 'a run = "world \<Rightarrow> (error + 'a) \<times> world"

definition ret :: "'a \<Rightarrow> 'a run" where
  "ret x = (\<lambda>w. (Inr x, w))"

definition raise :: "error \<Rightarrow> 'a run" where
  "raise e = (\<lambda>w. (Inl e, w))"

definition bind :: "'a run \<Rightarrow> ('a \<Rightarrow> 'b run) \<Rightarrow> 'b run" where
  "bind m f = (\<lambda>w. case m w of (Inl e, w') \<Rightarrow> (Inl e, w') | (Inr x, w') \<Rightarrow> f x w')"

definition lift :: "error + 'a \<Rightarrow> 'a run" where
  "lift r = (\<lambda>w. (r, w))"

definition emit :: "event \<Rightarrow> unit run" where
  "emit ev = (\<lambda>w. (Inr (), w\<lparr>trace := trace w @ [ev]\<rparr>))"

section \<open>The embedding model: SAGEConv and GraphSAGE\<close>

type_synonym edge_index = "(int \<times> int) list"

text \<open>
  Modelled from the spec: \<open>SAGEConv\<close> is imported from torch_geometric and is
  not under src/. Section 4.1 of the spec: each node's new representation is a learned
  linear combination of its own previous representation and the mean of its direct
  in-neighbours' previous representations; a node without incoming edges aggregates
  the zero vector; a repeated edge counts as often as it occurs. A width that does
  not fit the weights and an edge that names no node raise.
\<close>

record SAGEConv =
  lin_l_weight :: tensor
  lin_l_bias :: "real list"
  lin_r_weight :: tensor

definition conv_in :: "SAGEConv \<Rightarrow> nat" where
  "conv_in c = ncols (lin_l_weight c)"

definition conv_out :: "SAGEConv \<Rightarrow> nat" where
  "conv_out c = nrows (lin_l_weight c)"

definition dot :: "real list \<Rightarrow> real list \<Rightarrow> real" where
  "dot u v = sum_list (map2 (*) u v)"

definition matvec :: "tensor \<Rightarrow> real list \<Rightarrow> real list" where
  "matvec W v = map (\<lambda>r. dot r v) (trows W)"

definition vadd :: "real list \<Rightarrow> real list \<Rightarrow> real list" where
  "vadd u v = map2 (+) u v"

definition vsub :: "real list \<Rightarrow> real list \<Rightarrow> real list" where
  "vsub u v = map2 (-) u v"

definition vscale :: "real \<Rightarrow> real list \<Rightarrow> real list" where
  "vscale c v = map (\<lambda>a. c * a) v"

definition edge_ok :: "nat \<Rightarrow> int \<times> int \<Rightarrow> bool" where
  "edge_ok n e = (0 \<le> fst e \<and> fst e < int n \<and> 0 \<le> snd e \<and> snd e < int n)"

definition mean_agg :: "nat \<Rightarrow> real list list \<Rightarrow> edge_index \<Rightarrow> nat \<Rightarrow> real list" where
  "mean_agg width rows edges i =
     (let srcs = map (\<lambda>e. rows ! nat (fst e)) (filter (\<lambda>e. snd e = int i) edges)
      in if srcs = [] then replicate width 0
         else vscale (1 / real (length srcs)) (foldr vadd srcs (replicate width 0)))"

definition SAGEConv_forward :: "SAGEConv \<Rightarrow> tensor \<Rightarrow> edge_index \<Rightarrow> error + tensor" where
  "SAGEConv_forward c t edges =
     (if ncols t \<noteq> conv_in c then Inl ShapeError
      else if \<not> list_all (edge_ok (nrows t)) edges then Inl IndexError
      else Inr (Tensor (conv_out c)
             (map (\<lambda>(i, xi).
                     vadd (vadd (matvec (lin_l_weight c) (mean_agg (ncols t) (trows t) edges i))
                                (lin_l_bias c))
                          (matvec (lin_r_weight c) xi))
                  (enumerate 0 (trows t)))))"

text \<open>\<open>torch.nn.Linear\<close>: a weight of shape \<open>[out, in]\<close> and a bias of length \<open>out\<close>.\<close>

record Linear =
  lin_weight :: tensor
  lin_bias :: "real list"

definition Linear_forward :: "Linear \<Rightarrow> tensor \<Rightarrow> error + tensor" where
  "Linear_forward l t =
     (if ncols t \<noteq> ncols (lin_weight l) then Inl ShapeError
      else Inr (Tensor (nrows (lin_weight l))
             (map (\<lambda>r. vadd (matvec (lin_weight l) r) (lin_bias l)) (trows t))))"

definition relu :: "tensor \<Rightarrow> tensor" where
  "relu t = Tensor (ncols t) (map (map (max 0)) (trows t))"

text \<open>
  \<open>F.dropout(t, p, training)\<close>: the identity when \<open>training\<close> is false. In training
  it draws one Bernoulli decision per entry from the generator, zeroes the entries
  dropped and scales the ones kept by \<open>1 / (1 - p)\<close>.
\<close>

fun dropout_row :: "real \<Rightarrow> (nat \<Rightarrow> bool) \<Rightarrow> nat \<Rightarrow> real list \<Rightarrow> real list" where
  "dropout_row p k pos [] = []"
| "dropout_row p k pos (v # vs) =
     (if k pos then v / (1 - p) else 0) # dropout_row p k (Suc pos) vs"

fun dropout_rows :: "real \<Rightarrow> (nat \<Rightarrow> bool) \<Rightarrow> nat \<Rightarrow> real list list \<Rightarrow> real list list" where
  "dropout_rows p k pos [] = []"
| "dropout_rows p k pos (r # rs) =
     dropout_row p k pos r # dropout_rows p k (pos + length r) rs"

definition dropout :: "tensor \<Rightarrow> real \<Rightarrow> bool \<Rightarrow> tensor run" where
  "dropout t p training =
     (if training
      then (\<lambda>w. (Inr (Tensor (ncols t) (dropout_rows p (keep w) (rng_pos w) (trows t))),
                 w\<lparr>rng_pos := rng_pos w + sum_list (map length (trows t))\<rparr>))
      else ret t)"

definition cat1 :: "tensor \<Rightarrow> tensor \<Rightarrow> error + tensor" where
  "cat1 a b =
     (if nrows a \<noteq> nrows b then Inl ShapeError
      else Inr (Tensor (ncols a + ncols b) (map2 (@) (trows a) (trows b))))"

record GraphSAGE =
  gs_in_channels :: int
  gs_hidden_channels :: int
  gs_out_channels :: int
  gs_n_layers :: int
  convs :: "SAGEConv list"
  fc :: Linear
  dropout_prob :: real
  training :: bool

text \<open>The loop of \<open>GraphSAGE.forward\<close> over \<open>self.convs\<close>.\<close>

fun conv_loop :: "GraphSAGE \<Rightarrow> SAGEConv list \<Rightarrow> edge_index \<Rightarrow> tensor \<Rightarrow> tensor run" where
  "conv_loop m [] edges embeddings = ret embeddings"
| "conv_loop m (conv # rest) edges embeddings =
     bind (lift (SAGEConv_forward conv embeddings edges)) (\<lambda>h.
     bind (dropout (relu h) (dropout_prob m) (training m)) (\<lambda>d.
     conv_loop m rest edges d))"

definition forward :: "GraphSAGE \<Rightarrow> tensor \<Rightarrow> edge_index \<Rightarrow> bool \<Rightarrow> tensor run" where
  "forward m x edge_index return_hidden =
     bind (conv_loop m (convs m) edge_index x) (\<lambda>embeddings.
     bind (lift (cat1 x embeddings)) (\<lambda>c.
     if return_hidden then ret c else lift (Linear_forward (fc m) c)))"

text \<open>
  The constructor \<open>GraphSAGE.__init__\<close>: one \<open>SAGEConv(in_channels, hidden_channels)\<close>,
  then \<open>n_layers - 1\<close> times \<open>SAGEConv(hidden_channels, hidden_channels)\<close> (none when
  \<open>n_layers \<le> 1\<close>, as \<open>range\<close> of a non-positive number is empty), and the output
  layer \<open>Linear(hidden_channels + in_channels, out_channels)\<close>. torch fills the weights
  at random; the model writes zeros, since \<open>initialize\<close> overwrites every weight with
  \<open>load_state_dict\<close> before any use. A new module is in training mode. A negative
  size raises (the lazy size -1 of torch_geometric is left out).
\<close>

definition new_SAGEConv :: "nat \<Rightarrow> nat \<Rightarrow> SAGEConv" where
  "new_SAGEConv i out =
     \<lparr>lin_l_weight = zeros out i, lin_l_bias = replicate out 0, lin_r_weight = zeros out i\<rparr>"

definition new_Linear :: "nat \<Rightarrow> nat \<Rightarrow> Linear" where
  "new_Linear i out = \<lparr>lin_weight = zeros out i, lin_bias = replicate out 0\<rparr>"

definition GraphSAGE_init :: "int \<Rightarrow> int \<Rightarrow> int \<Rightarrow> int \<Rightarrow> error + GraphSAGE" where
  "GraphSAGE_init in_c hidden out n =
     (if in_c < 0 \<or> hidden < 0 \<or> out < 0 then Inl ShapeError
      else Inr \<lparr>gs_in_channels = in_c, gs_hidden_channels = hidden,
                gs_out_channels = out, gs_n_layers = n,
                convs = new_SAGEConv (nat in_c) (nat hidden)
                        # replicate (nat (n - 1)) (new_SAGEConv (nat hidden) (nat hidden)),
                fc = new_Linear (nat (hidden + in_c)) (nat out),
                dropout_prob = 0.25, training = True\<rparr>)"

text \<open>
  \<open>load_state_dict\<close> (strict): the file must hold exactly the tensors of the module,
  each of the module's shape; then every weight is replaced.
\<close>

record state_dict =
  sd_convs :: "SAGEConv list"
  sd_fc :: Linear

definition conv_shape :: "SAGEConv \<Rightarrow> (nat \<times> nat) \<times> nat \<times> (nat \<times> nat)" where
  "conv_shape c = (shape (lin_l_weight c), length (lin_l_bias c), shape (lin_r_weight c))"

definition wf_conv :: "SAGEConv \<Rightarrow> bool" where
  "wf_conv c = (wf_tensor (lin_l_weight c) \<and> wf_tensor (lin_r_weight c))"

definition linear_shape :: "Linear \<Rightarrow> (nat \<times> nat) \<times> nat" where
  "linear_shape l = (shape (lin_weight l), length (lin_bias l))"

definition load_state_dict :: "GraphSAGE \<Rightarrow> state_dict \<Rightarrow> error + GraphSAGE" where
  "load_state_dict m sd =
     (if map conv_shape (sd_convs sd) = map conv_shape (convs m)
         \<and> linear_shape (sd_fc sd) = linear_shape (fc m)
         \<and> list_all wf_conv (sd_convs sd) \<and> wf_tensor (lin_weight (sd_fc sd))
      then Inr (m\<lparr>convs := sd_convs sd, fc := sd_fc sd\<rparr>)
      else Inl ShapeError)"

definition eval_mode :: "GraphSAGE \<Rightarrow> GraphSAGE" where
  "eval_mode m = m\<lparr>training := False\<rparr>"

section \<open>The tree ensemble\<close>

text \<open>
  Modelled from the spec: \<open>xgb.Booster\<close> is imported from xgboost and is not under
  src/. Section 4.2 of the spec: the ensemble maps each embedding row to a scalar
  score, and fails only if the embeddings' width is not the width the ensemble
  expects. The ensemble's row function is a parameter.
\<close>

record Booster =
  bst_num_features :: nat
  bst_row_score :: "real list \<Rightarrow> real"

definition predict :: "Booster \<Rightarrow> tensor \<Rightarrow> error + real list" where
  "predict b t =
     (if ncols t \<noteq> bst_num_features b then Inl XGBoostError
      else Inr (map (bst_row_score b) (trows t)))"

section \<open>Startup: TritonPythonModel.initialize\<close>

text \<open>
  The model configuration after \<open>json.loads\<close>: \<open>parameters\<close> maps a name to a
  dictionary that holds \<open>string_value\<close>; \<open>cfg_input\<close> and \<open>cfg_output\<close> (the keys \<open>input\<close> and \<open>output\<close>) list the declared
  tensors with their \<open>data_type\<close>.
\<close>

record io_config =
  io_name :: string
  data_type :: string

record model_config =
  parameters :: "(string \<Rightarrow> (string \<Rightarrow> string option) option) option"
  cfg_input :: "io_config list"
  cfg_output :: "io_config list"

text \<open>What startup reads from outside: the directory of the module and the two model files.\<close>

record env =
  current_directory :: string
  cuda :: bool
  torch_files :: "string \<Rightarrow> state_dict option"
  xgb_files :: "string \<Rightarrow> Booster option"

record TritonPythonModel =
  in_channels :: int
  hidden_channels :: int
  out_channels :: int
  n_layers :: int
  embedder_state_dict_filename :: string
  xgb_model_filename :: string
  feature_mask_dtype :: string
  prediction_dtype :: string
  shap_dtype :: string
  model :: GraphSAGE
  bst :: Booster

definition ebind :: "error + 'a \<Rightarrow> ('a \<Rightarrow> error + 'b) \<Rightarrow> error + 'b" where
  "ebind r f = (case r of Inl e \<Rightarrow> Inl e | Inr x \<Rightarrow> f x)"

text \<open>
  Python's \<open>int(s)\<close> on a string, for ASCII input: surrounding whitespace, an optional
  sign, then decimal digits, where single underscores may stand between digits.
\<close>

definition is_space :: "char \<Rightarrow> bool" where
  "is_space c = (c \<in> set [CHR '' '', CHR 0x09, CHR 0x0A, CHR 0x0B, CHR 0x0C, CHR 0x0D])"

definition digit_val :: "char \<Rightarrow> nat option" where
  "digit_val c =
     (let n = (of_char c :: nat) in if 48 \<le> n \<and> n \<le> 57 then Some (n - 48) else None)"

fun digits :: "nat \<Rightarrow> string \<Rightarrow> nat option" where
  "digits acc [] = Some acc"
| "digits acc [c] = (case digit_val c of None \<Rightarrow> None | Some v \<Rightarrow> Some (acc * 10 + v))"
| "digits acc (c # d # ds) =
     (case digit_val c of
        None \<Rightarrow> None
      | Some v \<Rightarrow>
          if d = CHR ''_'' then (if ds = [] then None else digits (acc * 10 + v) ds)
          else digits (acc * 10 + v) (d # ds))"

definition unsigned :: "string \<Rightarrow> nat option" where
  "unsigned s = (if s = [] then None else digits 0 s)"

definition strip :: "string \<Rightarrow> string" where
  "strip s = rev (dropWhile is_space (rev (dropWhile is_space s)))"

definition py_int :: "string \<Rightarrow> error + int" where
  "py_int s =
     (case strip s of
        [] \<Rightarrow> Inl (ValueError s)
      | c # cs \<Rightarrow>
          if c = CHR ''-'' then
            (case unsigned cs of None \<Rightarrow> Inl (ValueError s) | Some n \<Rightarrow> Inr (- int n))
          else if c = CHR ''+'' then
            (case unsigned cs of None \<Rightarrow> Inl (ValueError s) | Some n \<Rightarrow> Inr (int n))
          else
            (case unsigned (c # cs) of None \<Rightarrow> Inl (ValueError s) | Some n \<Rightarrow> Inr (int n)))"

definition string_value ::
  "(string \<Rightarrow> (string \<Rightarrow> string option) option) \<Rightarrow> string \<Rightarrow> error + string" where
  "string_value ps k =
     (case ps k of
        None \<Rightarrow> Inl (KeyError k)
      | Some d \<Rightarrow>
          (case d ''string_value'' of None \<Rightarrow> Inl (KeyError ''string_value'') | Some v \<Rightarrow> Inr v))"

definition get_config_by_name :: "io_config list \<Rightarrow> string \<Rightarrow> io_config option" where
  "get_config_by_name cs n = find (\<lambda>c. io_name c = n) cs"

definition config_data_type :: "io_config option \<Rightarrow> error + string" where
  "config_data_type c = (case c of None \<Rightarrow> Inl TypeError | Some p \<Rightarrow> Inr (data_type p))"

definition path_join :: "string \<Rightarrow> string \<Rightarrow> string" where
  "path_join a b =
     (if b \<noteq> [] \<and> hd b = CHR ''/'' then b
      else if a = [] \<or> last a = CHR ''/'' then a @ b
      else a @ ''/'' @ b)"

definition torch_load :: "env \<Rightarrow> string \<Rightarrow> error + state_dict" where
  "torch_load ev path =
     (case torch_files ev path of
        None \<Rightarrow> Inl (FileNotFoundError path)
      | Some sd \<Rightarrow> if cuda ev then Inr sd else Inl CudaError)"

definition load_model :: "env \<Rightarrow> string \<Rightarrow> error + Booster" where
  "load_model ev path =
     (case xgb_files ev path of None \<Rightarrow> Inl XGBoostError | Some b \<Rightarrow> Inr b)"

definition initialize :: "env \<Rightarrow> model_config \<Rightarrow> error + TritonPythonModel" where
  "initialize ev cfg =
     (case parameters cfg of
        None \<Rightarrow> Inl (KeyError ''parameters'')
      | Some ps \<Rightarrow>
     ebind (ebind (string_value ps ''in_channels'') py_int) (\<lambda>in_c.
     ebind (ebind (string_value ps ''hidden_channels'') py_int) (\<lambda>hidden.
     ebind (ebind (string_value ps ''out_channels'') py_int) (\<lambda>out.
     ebind (ebind (string_value ps ''n_layers'') py_int) (\<lambda>n.
     ebind (string_value ps ''embedding_generator_model_state_dict'') (\<lambda>embedder_file.
     ebind (string_value ps ''embeddings_based_xgboost_model'') (\<lambda>xgb_file.
     ebind (config_data_type (get_config_by_name (cfg_input cfg) ''FEATURE_MASK'')) (\<lambda>fm_dtype.
     ebind (config_data_type (get_config_by_name (cfg_output cfg) ''PREDICTION'')) (\<lambda>pred_dtype.
     ebind (config_data_type (get_config_by_name (cfg_output cfg) ''SHAP_VALUES'')) (\<lambda>sh_dtype.
     ebind (GraphSAGE_init in_c hidden out n) (\<lambda>m0.
     ebind (torch_load ev (path_join (current_directory ev) embedder_file)) (\<lambda>sd.
     ebind (load_state_dict m0 sd) (\<lambda>m1.
     ebind (load_model ev (path_join (current_directory ev) xgb_file)) (\<lambda>b.
     Inr \<lparr>in_channels = in_c, hidden_channels = hidden, out_channels = out, n_layers = n,
          embedder_state_dict_filename = embedder_file, xgb_model_filename = xgb_file,
          feature_mask_dtype = fm_dtype, prediction_dtype = pred_dtype,
          shap_dtype = sh_dtype, model = eval_mode m1, bst = b\<rparr>))))))))))))))"

text \<open>
  The six entries that \<open>initialize\<close> reads from \<open>parameters\<close>, and the value the
  configuration holds for one of them, if any.
\<close>

definition startup_keys :: "string list" where
  "startup_keys = [''in_channels'', ''hidden_channels'', ''out_channels'', ''n_layers'',
     ''embedding_generator_model_state_dict'', ''embeddings_based_xgboost_model'']"

definition config_entry :: "model_config \<Rightarrow> string \<Rightarrow> string option" where
  "config_entry cfg k =
     (case parameters cfg of
        None \<Rightarrow> None
      | Some ps \<Rightarrow> (case ps k of None \<Rightarrow> None | Some d \<Rightarrow> d ''string_value''))"

section \<open>Shapley value sampling\<close>

text \<open>
  Modelled from the spec: \<open>ShapleyValueSampling\<close> is imported from captum and is
  not under src/. Section 4.4 of the spec: per sample, draw a random permutation of
  the coalition groups; walk it left to right, replacing in a running input that
  starts as the baseline each group's features with those of \<open>x\<close>; after each
  group record the score of the running input minus the score of the previous one
  as that group's marginal contribution; average each group's contribution over the
  samples, and give it to every feature that the mask maps to the group. \<open>n_samples\<close>
  must be at least 1, the baseline must have the shape of \<open>x\<close>, and the mask must
  map every feature to a group. The scoring function returns one score per row, and
  each row of the result is built from that row's scores.
\<close>

fun pick :: "nat \<Rightarrow> (nat \<Rightarrow> nat) \<Rightarrow> nat \<Rightarrow> 'a list \<Rightarrow> 'a list" where
  "pick 0 d pos pool = []"
| "pick (Suc n) d pos pool =
     (let i = d pos mod length pool
      in pool ! i # pick n d (Suc pos) (take i pool @ drop (Suc i) pool))"

definition randperm :: "'a list \<Rightarrow> 'a list run" where
  "randperm pool =
     (\<lambda>w. (Inr (pick (length pool) (draw w) (rng_pos w) pool),
            w\<lparr>rng_pos := rng_pos w + length pool, trace := trace w @ [EvRandperm]\<rparr>))"

definition reveal_row :: "int list \<Rightarrow> int \<Rightarrow> real list \<Rightarrow> real list \<Rightarrow> real list" where
  "reveal_row fmask g xrow rrow =
     map (\<lambda>(m, xv, rv). if m = g then xv else rv) (zip fmask (zip xrow rrow))"

definition reveal :: "int list \<Rightarrow> int \<Rightarrow> tensor \<Rightarrow> tensor \<Rightarrow> tensor" where
  "reveal fmask g x running =
     Tensor (ncols running) (map2 (reveal_row fmask g) (trows x) (trows running))"

fun walk ::
  "(tensor \<Rightarrow> real list run) \<Rightarrow> tensor \<Rightarrow> int list \<Rightarrow> int list \<Rightarrow> tensor \<Rightarrow> real list
   \<Rightarrow> (int \<times> real list) list run" where
  "walk f x fmask [] running prev = ret []"
| "walk f x fmask (g # gs) running prev =
     bind (f (reveal fmask g x running)) (\<lambda>cur.
     bind (walk f x fmask gs (reveal fmask g x running) cur) (\<lambda>rest.
     ret ((g, vsub cur prev) # rest)))"

fun samples ::
  "nat \<Rightarrow> (tensor \<Rightarrow> real list run) \<Rightarrow> tensor \<Rightarrow> tensor \<Rightarrow> int list \<Rightarrow> real list
   \<Rightarrow> (int \<times> real list) list list run" where
  "samples 0 f x baseline fmask base = ret []"
| "samples (Suc n) f x baseline fmask base =
     bind (randperm (remdups fmask)) (\<lambda>perm.
     bind (walk f x fmask perm baseline base) (\<lambda>c.
     bind (samples n f x baseline fmask base) (\<lambda>cs.
     ret (c # cs))))"

definition group_total :: "(int \<times> real list) list list \<Rightarrow> nat \<Rightarrow> int \<Rightarrow> real" where
  "group_total cs i g =
     sum_list (map (\<lambda>c. sum_list (map (\<lambda>(h, v). if h = g then v ! i else 0) c)) cs)"

definition attributions_of ::
  "(int \<times> real list) list list \<Rightarrow> int list \<Rightarrow> nat \<Rightarrow> nat \<Rightarrow> tensor" where
  "attributions_of cs fmask n width =
     Tensor width (map (\<lambda>i. map (\<lambda>g. group_total cs i g / real (length cs)) fmask) [0..<n])"

definition attribute ::
  "(tensor \<Rightarrow> real list run) \<Rightarrow> tensor \<Rightarrow> tensor \<Rightarrow> int list \<Rightarrow> int \<Rightarrow> tensor run" where
  "attribute f x baselines feature_mask n_samples =
     bind (emit (EvAttribute n_samples)) (\<lambda>_.
     if n_samples < 1 then raise SamplesError
     else if shape baselines \<noteq> shape x then raise BaselineShapeError
     else if length feature_mask \<noteq> ncols x then raise MaskShapeError
     else
       bind (f baselines) (\<lambda>base.
       bind (samples (nat n_samples) f x baselines feature_mask base) (\<lambda>cs.
       ret (attributions_of cs feature_mask (nrows x) (ncols x)))))"

section \<open>Requests: TritonPythonModel.execute\<close>

text \<open>
  The four input tensors of a request, as the serving runtime hands them over:
  \<open>NODE_FEATURES\<close> a matrix, \<open>EDGE_INDEX\<close> the list of its columns (source, target),
  \<open>COMPUTE_SHAP\<close> and \<open>FEATURE_MASK\<close> vectors. An output tensor is the value
  computed together with the name of the type it is cast to.
\<close>

record request =
  NODE_FEATURES :: tensor
  EDGE_INDEX :: edge_index
  COMPUTE_SHAP :: "bool list"
  FEATURE_MASK :: "int list"

record response =
  PREDICTION :: "string \<times> tensor"
  SHAP_VALUES :: "string \<times> tensor"

text \<open>The closure \<open>forward_function\<close>, with the variables it captures as arguments.\<close>

definition forward_function :: "TritonPythonModel \<Rightarrow> edge_index \<Rightarrow> tensor \<Rightarrow> real list run" where
  "forward_function self edge_index_numpy node_x_tensor =
     bind (emit EvEmbed) (\<lambda>_.
     bind (forward (model self) node_x_tensor edge_index_numpy True) (\<lambda>embeddings.
     bind (emit EvPredict) (\<lambda>_.
     lift (predict (bst self) embeddings))))"

definition column :: "real list \<Rightarrow> tensor" where
  "column v = Tensor 1 (map (\<lambda>a. [a]) v)"

definition torch_zeros :: "int \<Rightarrow> int \<Rightarrow> error + tensor" where
  "torch_zeros n m = (if n < 0 \<or> m < 0 then Inl ShapeError else Inr (zeros (nat n) (nat m)))"

text \<open>The body of the loop of \<open>execute\<close>, for one request.\<close>

definition run_request :: "TritonPythonModel \<Rightarrow> request \<Rightarrow> response run" where
  "run_request self request =
     bind (emit EvEmbed) (\<lambda>_.
     bind (forward (model self) (NODE_FEATURES request) (EDGE_INDEX request) True) (\<lambda>embeddings.
     bind (emit EvPredict) (\<lambda>_.
     bind (lift (predict (bst self) embeddings)) (\<lambda>y_pred_prob.
     bind (case COMPUTE_SHAP request of
             [] \<Rightarrow> raise IndexError
           | flag # _ \<Rightarrow>
               if flag then
                 bind (emit EvSampler) (\<lambda>_.
                 attribute (forward_function self (EDGE_INDEX request))
                   (NODE_FEATURES request) (zeros_like (NODE_FEATURES request))
                   (FEATURE_MASK request) 128)
               else lift (torch_zeros 1 (in_channels self))) (\<lambda>attributions.
     ret \<lparr>PREDICTION = (prediction_dtype self, column y_pred_prob),
          SHAP_VALUES = (shap_dtype self, attributions)\<rparr>)))))"

fun execute_loop :: "TritonPythonModel \<Rightarrow> request list \<Rightarrow> response list \<Rightarrow> response list run" where
  "execute_loop self [] responses = ret responses"
| "execute_loop self (request # rest) responses =
     bind (run_request self request) (\<lambda>inference_response.
     execute_loop self rest (responses @ [inference_response]))"

definition execute :: "TritonPythonModel \<Rightarrow> request list \<Rightarrow> response list run" where
  "execute self requests = execute_loop self requests []"

section \<open>Well-formed models\<close>

text \<open>
  The shapes that the constructor gives the layers and that \<open>load_state_dict\<close> keeps:
  the first layer maps \<open>in_channels\<close> to \<open>hidden_channels\<close>, every later one
  \<open>hidden_channels\<close> to \<open>hidden_channels\<close>.
\<close>

definition layer_ok :: "nat \<Rightarrow> nat \<Rightarrow> SAGEConv \<Rightarrow> bool" where
  "layer_ok i out c = (conv_shape c = ((out, i), out, (out, i)) \<and> wf_conv c)"

fun chain_ok :: "nat \<Rightarrow> nat \<Rightarrow> SAGEConv list \<Rightarrow> bool" where
  "chain_ok i out [] = True"
| "chain_ok i out (c # cs) = (layer_ok i out c \<and> chain_ok out out cs)"

definition wf_GraphSAGE :: "GraphSAGE \<Rightarrow> bool" where
  "wf_GraphSAGE m =
     (0 \<le> gs_in_channels m \<and> 0 \<le> gs_hidden_channels m \<and> convs m \<noteq> []
      \<and> chain_ok (nat (gs_in_channels m)) (nat (gs_hidden_channels m)) (convs m))"

section \<open>A concrete deployment\<close>

text \<open>A small configuration, its files and inputs, on which the definitions are run.\<close>

definition sv :: "string \<Rightarrow> string \<Rightarrow> string option" where
  "sv v = map_of [(''string_value'', v)]"

definition ex_cfg :: model_config where
  "ex_cfg = \<lparr>parameters = Some (map_of
       [(''in_channels'', sv ''2''), (''hidden_channels'', sv ''1''),
        (''out_channels'', sv ''1''), (''n_layers'', sv ''1''),
        (''embedding_generator_model_state_dict'', sv ''sage.pth''),
        (''embeddings_based_xgboost_model'', sv ''xgb.json'')]),
     cfg_input = [\<lparr>io_name = ''FEATURE_MASK'', data_type = ''TYPE_INT32''\<rparr>],
     cfg_output = [\<lparr>io_name = ''PREDICTION'', data_type = ''TYPE_FP32''\<rparr>,
                   \<lparr>io_name = ''SHAP_VALUES'', data_type = ''TYPE_FP32''\<rparr>]\<rparr>"

definition ex_sd :: state_dict where
  "ex_sd = \<lparr>sd_convs = [\<lparr>lin_l_weight = Tensor 2 [[1, 0]], lin_l_bias = [0],
                          lin_r_weight = Tensor 2 [[0, 1]]\<rparr>],
            sd_fc = \<lparr>lin_weight = Tensor 3 [[1, 1, 1]], lin_bias = [0]\<rparr>\<rparr>"

definition ex_bst :: Booster where
  "ex_bst = \<lparr>bst_num_features = 3, bst_row_score = sum_list\<rparr>"

definition ex_env :: env where
  "ex_env = \<lparr>current_directory = ''/models/1'', cuda = True,
             torch_files = map_of [(''/models/1/sage.pth'', ex_sd)],
             xgb_files = map_of [(''/models/1/xgb.json'', ex_bst)]\<rparr>"

definition ex_model :: GraphSAGE where
  "ex_model = \<lparr>gs_in_channels = 2, gs_hidden_channels = 1, gs_out_channels = 1,
               gs_n_layers = 1, convs = sd_convs ex_sd, fc = sd_fc ex_sd,
               dropout_prob = 0.25, training = False\<rparr>"

definition ex_self :: TritonPythonModel where
  "ex_self = \<lparr>in_channels = 2, hidden_channels = 1, out_channels = 1, n_layers = 1,
      embedder_state_dict_filename = ''sage.pth'', xgb_model_filename = ''xgb.json'',
      feature_mask_dtype = ''TYPE_INT32'', prediction_dtype = ''TYPE_FP32'',
      shap_dtype = ''TYPE_FP32'', model = ex_model, bst = ex_bst\<rparr>"

definition ex_world :: world where
  "ex_world = \<lparr>keep = (\<lambda>_. True), draw = (\<lambda>n. n), rng_pos = 0, trace = []\<rparr>"

definition ex_x :: tensor where
  "ex_x = Tensor 2 [[1, 2], [3, 4]]"

text \<open>The same configuration without the entry \<open>n_layers\<close>.\<close>

definition ex_cfg_no_layers :: model_config where
  "ex_cfg_no_layers = ex_cfg\<lparr>parameters := Some (map_of
       [(''in_channels'', sv ''2''), (''hidden_channels'', sv ''1''),
        (''out_channels'', sv ''1''),
        (''embedding_generator_model_state_dict'', sv ''sage.pth''),
        (''embeddings_based_xgboost_model'', sv ''xgb.json'')])\<rparr>"

text \<open>
  Two requests: one that asks for no attribution, and one whose feature matrix has
  three columns where the model expects two.
\<close>

definition ex_request_off :: request where
  "ex_request_off = \<lparr>NODE_FEATURES = ex_x, EDGE_INDEX = [(0, 1)],
     COMPUTE_SHAP = [False], FEATURE_MASK = [0, 1]\<rparr>"

definition ex_request_bad :: request where
  "ex_request_bad = \<lparr>NODE_FEATURES = Tensor 3 [[1, 2, 3]], EDGE_INDEX = [],
     COMPUTE_SHAP = [False], FEATURE_MASK = [0, 1]\<rparr>"

section \<open>Notions used in the properties of the sampler\<close>

text \<open>
  The running input of a walk after the groups in \<open>G\<close> have been revealed: the
  columns whose group is in \<open>G\<close> come from \<open>x\<close>, the others from the baseline.
  \<open>fits x t\<close>: \<open>t\<close> is rectangular and has the shape of \<open>x\<close>.
\<close>

definition revealed_row :: "int set \<Rightarrow> int list \<Rightarrow> real list \<Rightarrow> real list \<Rightarrow> real list" where
  "revealed_row G fmask xrow rrow =
     map (\<lambda>(m, xv, rv). if m \<in> G then xv else rv) (zip fmask (zip xrow rrow))"

definition revealed :: "int set \<Rightarrow> int list \<Rightarrow> tensor \<Rightarrow> tensor \<Rightarrow> tensor" where
  "revealed G fmask x b = Tensor (ncols b) (map2 (revealed_row G fmask) (trows x) (trows b))"

definition fits :: "tensor \<Rightarrow> tensor \<Rightarrow> bool" where
  "fits x t = (wf_tensor t \<and> shape t = shape x)"

text \<open>
  What one sample is: a list that pairs groups of the mask with their marginal
  contributions, which add up, row by row, to \<open>D\<close>.
\<close>

definition sample_ok :: "int list \<Rightarrow> nat \<Rightarrow> (nat \<Rightarrow> real) \<Rightarrow> (int \<times> real list) list \<Rightarrow> bool" where
  "sample_ok fmask n D c =
     (set (map fst c) \<subseteq> set fmask \<and> (\<forall>i<n. sum_list (map (\<lambda>(g, v). v ! i) c) = D i))"

section \<open>Notions used in the properties of requests\<close>

text \<open>
  \<open>ready\<close>: what \<open>initialize\<close> establishes about the embedding model: the layers have
  the constructor's shapes and the model is in inference mode. \<open>widths_agree\<close>: the
  ensemble expects the width of the embeddings. \<open>valid_request\<close>: the feature matrix
  is rectangular with \<open>in_channels\<close> columns and every edge joins two of its rows.
  \<open>scoring_fn\<close>: the value of \<open>forward_function\<close>, read off a run in a fresh world
  (the empty list stands for a raised error).
\<close>

definition ready :: "TritonPythonModel \<Rightarrow> bool" where
  "ready self =
     (wf_GraphSAGE (model self) \<and> \<not> training (model self)
      \<and> gs_in_channels (model self) = in_channels self
      \<and> gs_hidden_channels (model self) = hidden_channels self)"

definition widths_agree :: "TritonPythonModel \<Rightarrow> bool" where
  "widths_agree self =
     (bst_num_features (bst self) = nat (in_channels self) + nat (hidden_channels self))"

definition valid_request :: "TritonPythonModel \<Rightarrow> request \<Rightarrow> bool" where
  "valid_request self r =
     (wf_tensor (NODE_FEATURES r) \<and> ncols (NODE_FEATURES r) = nat (in_channels self)
      \<and> list_all (edge_ok (nrows (NODE_FEATURES r))) (EDGE_INDEX r))"

definition fresh_world :: world where
  "fresh_world = \<lparr>keep = (\<lambda>_. False), draw = (\<lambda>_. 0), rng_pos = 0, trace = []\<rparr>"

definition scoring_fn :: "TritonPythonModel \<Rightarrow> edge_index \<Rightarrow> tensor \<Rightarrow> real list" where
  "scoring_fn self edges t =
     (case fst (forward_function self edges t fresh_world) of Inl _ \<Rightarrow> [] | Inr v \<Rightarrow> v)"

section \<open>Properties\<close>

subsection \<open>The monad of runs\<close>

lemma bind_ret [simp]: "bind (ret x) f = f x"
  by (simp add: bind_def ret_def)

lemma bind_lift_Inr [simp]: "bind (lift (Inr x)) f = f x"
  by (simp add: bind_def lift_def)

lemma bind_lift_Inl [simp]: "bind (lift (Inl e)) f w = (Inl e, w)"
  by (simp add: bind_def lift_def)

lemma bind_raise [simp]: "bind (raise e) f w = (Inl e, w)"
  by (simp add: bind_def raise_def)

lemma bind_emit [simp]: "bind (emit ev) f w = f () (w\<lparr>trace := trace w @ [ev]\<rparr>)"
  by (simp add: bind_def emit_def)

lemma bind_Inr: "m w = (Inr x, w') \<Longrightarrow> bind m f w = f x w'"
  by (simp add: bind_def)

lemma bind_Inl: "m w = (Inl e, w') \<Longrightarrow> bind m f w = (Inl e, w')"
  by (simp add: bind_def)

subsection \<open>Shapes through the layers\<close>

lemma length_vadd [simp]: "length (vadd u v) = min (length u) (length v)"
  by (simp add: vadd_def)

lemma length_matvec [simp]: "length (matvec W v) = nrows W"
  by (simp add: matvec_def nrows_def)

lemma SAGEConv_forward_shape:
  assumes "layer_ok i out c" "ncols t = i" "list_all (edge_ok (nrows t)) edges"
  shows "\<exists>h. SAGEConv_forward c t edges = Inr h \<and> nrows h = nrows t \<and> ncols h = out
             \<and> wf_tensor h"
  using assms
  by (auto simp: SAGEConv_forward_def layer_ok_def conv_shape_def conv_in_def conv_out_def
      shape_def nrows_def wf_tensor_def list_all_iff in_set_enumerate_eq)

lemma relu_shape [simp]: "nrows (relu t) = nrows t" "ncols (relu t) = ncols t"
  "wf_tensor (relu t) = wf_tensor t"
  by (simp_all add: relu_def nrows_def wf_tensor_def list_all_iff)

lemma length_dropout_row [simp]: "length (dropout_row p k pos r) = length r"
  by (induction r arbitrary: pos) simp_all

lemma length_dropout_rows [simp]: "length (dropout_rows p k pos rs) = length rs"
  by (induction rs arbitrary: pos) simp_all

lemma dropout_rows_wf:
  "list_all (\<lambda>r. length r = n) rs \<Longrightarrow> list_all (\<lambda>r. length r = n) (dropout_rows p k pos rs)"
  by (induction rs arbitrary: pos) simp_all

lemma dropout_shape:
  "\<exists>d w'. dropout t p tr w = (Inr d, w') \<and> nrows d = nrows t \<and> ncols d = ncols t
          \<and> (wf_tensor t \<longrightarrow> wf_tensor d)"
  by (simp add: dropout_def ret_def nrows_def wf_tensor_def dropout_rows_wf)

lemma conv_loop_shape:
  assumes "chain_ok i out cs" "ncols t = i" "list_all (edge_ok (nrows t)) edges"
  shows "\<exists>h w'. conv_loop m cs edges t w = (Inr h, w') \<and> nrows h = nrows t
          \<and> ncols h = (if cs = [] then i else out) \<and> (wf_tensor t \<longrightarrow> wf_tensor h)"
  using assms
proof (induction cs arbitrary: i t w)
  case Nil
  then show ?case by (simp add: ret_def)
next
  case (Cons c cs)
  from Cons.prems obtain h where h: "SAGEConv_forward c t edges = Inr h" "nrows h = nrows t"
    "ncols h = out" "wf_tensor h"
    using SAGEConv_forward_shape [of i out c t edges] by auto
  obtain d w1 where d: "dropout (relu h) (dropout_prob m) (training m) w = (Inr d, w1)"
    "nrows d = nrows h" "ncols d = out" "wf_tensor d"
    using dropout_shape [of "relu h" "dropout_prob m" "training m" w] h by auto
  from Cons.prems have "chain_ok out out cs" by simp
  from Cons.IH [OF this, of d w1] d h Cons.prems
  obtain h' w' where "conv_loop m cs edges d w1 = (Inr h', w')" "nrows h' = nrows t"
    "ncols h' = (if cs = [] then out else out)" "wf_tensor h'"
    by auto
  with h d show ?case
    by (simp add: bind_Inr)
qed


subsection \<open>What a successful start has read\<close>

lemma ebind_InrE:
  assumes "ebind r f = Inr y"
  obtains x where "r = Inr x" and "f x = Inr y"
  using assms by (cases r) (simp_all add: ebind_def)

lemma string_value_entry:
  "parameters cfg = Some ps \<Longrightarrow> string_value ps k = Inr v \<Longrightarrow> config_entry cfg k = Some v"
  by (simp add: string_value_def config_entry_def split: option.splits)

lemma initialize_InrE:
  assumes "initialize ev cfg = Inr self"
  obtains ps si sh so sn m0 sd m1 where
    "parameters cfg = Some ps"
    "string_value ps ''in_channels'' = Inr si" "py_int si = Inr (in_channels self)"
    "string_value ps ''hidden_channels'' = Inr sh" "py_int sh = Inr (hidden_channels self)"
    "string_value ps ''out_channels'' = Inr so" "py_int so = Inr (out_channels self)"
    "string_value ps ''n_layers'' = Inr sn" "py_int sn = Inr (n_layers self)"
    "string_value ps ''embedding_generator_model_state_dict''
       = Inr (embedder_state_dict_filename self)"
    "string_value ps ''embeddings_based_xgboost_model'' = Inr (xgb_model_filename self)"
    "GraphSAGE_init (in_channels self) (hidden_channels self) (out_channels self)
       (n_layers self) = Inr m0"
    "torch_load ev (path_join (current_directory ev) (embedder_state_dict_filename self))
       = Inr sd"
    "load_state_dict m0 sd = Inr m1"
    "model self = eval_mode m1"
    "load_model ev (path_join (current_directory ev) (xgb_model_filename self))
       = Inr (bst self)"
proof -
  from assms obtain ps where ps: "parameters cfg = Some ps"
    by (cases "parameters cfg") (simp_all add: initialize_def)
  from assms ps show thesis
    unfolding initialize_def
    apply simp
    apply (elim ebind_InrE)
    apply (rule that [OF ps])
    apply auto
    done
qed

subsection \<open>The concrete deployment starts\<close>

lemma py_int_2: "py_int ''2'' = Inr 2"
  by (simp add: py_int_def strip_def is_space_def unsigned_def digit_val_def)

lemma py_int_1: "py_int ''1'' = Inr 1"
  by (simp add: py_int_def strip_def is_space_def unsigned_def digit_val_def)

lemma initialize_ex: "initialize ex_env ex_cfg = Inr ex_self"
  by (simp add: initialize_def ex_env_def ex_cfg_def ex_self_def ex_model_def ex_sd_def
      ex_bst_def sv_def string_value_def ebind_def py_int_2 py_int_1 get_config_by_name_def
      config_data_type_def GraphSAGE_init_def torch_load_def load_model_def path_join_def
      load_state_dict_def new_SAGEConv_def new_Linear_def conv_shape_def linear_shape_def
      shape_def nrows_def zeros_def wf_conv_def wf_tensor_def eval_mode_def)

subsection \<open>The embedding step\<close>



subsection \<open>Startup configuration\<close>

text \<open>
  C7. If one of the six startup entries (\<open>in_channels\<close>, \<open>hidden_channels\<close>,
  \<open>out_channels\<close>, \<open>n_layers\<close>, or one of the two model-file locations) is absent
  from the model configuration, \<open>initialize\<close> raises: it returns no model, so no
  entry is given a default.
\<close>

theorem initialize_missing_entry:
  assumes "k \<in> set startup_keys" and "config_entry cfg k = None"
  shows "\<exists>e. initialize ev cfg = Inl e"
proof (cases "initialize ev cfg")
  case (Inl e)
  then show ?thesis by simp
next
  case (Inr self)
  then obtain ps si sh so sn where
    "parameters cfg = Some ps"
    "string_value ps ''in_channels'' = Inr si"
    "string_value ps ''hidden_channels'' = Inr sh"
    "string_value ps ''out_channels'' = Inr so"
    "string_value ps ''n_layers'' = Inr sn"
    "string_value ps ''embedding_generator_model_state_dict''
       = Inr (embedder_state_dict_filename self)"
    "string_value ps ''embeddings_based_xgboost_model'' = Inr (xgb_model_filename self)"
    by (elim initialize_InrE)
  then have "\<forall>k\<in>set startup_keys. config_entry cfg k \<noteq> None"
    by (simp add: startup_keys_def string_value_entry)
  with assms show ?thesis by blast
qed

theorem initialize_missing_entry_witness:
  "''n_layers'' \<in> set startup_keys \<and> config_entry ex_cfg_no_layers ''n_layers'' = None
   \<and> (\<exists>e. initialize ex_env ex_cfg_no_layers = Inl e)"
proof -
  have 1: "''n_layers'' \<in> set startup_keys"
    by (simp add: startup_keys_def)
  have 2: "config_entry ex_cfg_no_layers ''n_layers'' = None"
    by (simp add: config_entry_def ex_cfg_no_layers_def)
  from initialize_missing_entry [OF 1 2, of ex_env] 1 2 show ?thesis
    by blast
qed

lemma initialize_no_layers:
  "initialize ex_env ex_cfg_no_layers = Inl (KeyError ''n_layers'')"
  by (simp add: initialize_def ex_cfg_no_layers_def sv_def string_value_def ebind_def
      py_int_2 py_int_1)

subsection \<open>The scoring function in inference mode\<close>

lemma conv_loop_eval:
  assumes "\<not> training m"
  shows "\<exists>r. \<forall>w. conv_loop m cs edges t w = (r, w)"
proof (induction cs arbitrary: t)
  case Nil
  show ?case by (simp add: ret_def)
next
  case (Cons c cs)
  show ?case
  proof (cases "SAGEConv_forward c t edges")
    case (Inl e)
    then show ?thesis by simp
  next
    case (Inr h)
    from Cons [of "relu h"] obtain r where "\<forall>w. conv_loop m cs edges (relu h) w = (r, w)"
      by blast
    with Inr assms show ?thesis
      by (simp add: dropout_def)
  qed
qed

lemma forward_eval:
  assumes "\<not> training m"
  shows "\<exists>r. \<forall>w. forward m x edges rh w = (r, w)"
proof -
  from conv_loop_eval [OF assms, of "convs m" edges x]
  obtain r where r: "\<forall>w. conv_loop m (convs m) edges x w = (r, w)"
    by blast
  show ?thesis
  proof (cases r)
    case (Inl e)
    with r show ?thesis by (simp add: forward_def bind_def)
  next
    case (Inr emb)
    with r show ?thesis
      by (cases "cat1 x emb")
        (simp_all add: forward_def bind_def lift_def ret_def)
  qed
qed

lemma forward_function_eval:
  assumes "\<not> training (model self)"
  shows "\<exists>r evs. \<forall>w. forward_function self edges x w = (r, w\<lparr>trace := trace w @ evs\<rparr>)"
proof -
  from forward_eval [OF assms, of x edges True]
  obtain r where r: "\<forall>w. forward (model self) x edges True w = (r, w)"
    by blast
  show ?thesis
  proof (cases r)
    case (Inl e)
    with r have "\<forall>w. forward_function self edges x w = (Inl e, w\<lparr>trace := trace w @ [EvEmbed]\<rparr>)"
      by (simp add: forward_function_def bind_def emit_def)
    then show ?thesis by blast
  next
    case (Inr emb)
    with r have "\<forall>w. forward_function self edges x w
        = (predict (bst self) emb, w\<lparr>trace := trace w @ [EvEmbed, EvPredict]\<rparr>)"
      by (simp add: forward_function_def bind_def emit_def lift_def)
    then show ?thesis by blast
  qed
qed

text \<open>
  C4. With the model in inference mode (\<open>training\<close> false, so that dropout is the
  identity), the composed scoring function \<open>forward_function\<close> (node features to
  GraphSAGE embedding to the ensemble's prediction, the edge list and the weights
  fixed) is deterministic: its result is the same whatever the state of the random
  generator and the trace, so two calls on the same input return the same, and the
  only thing it leaves behind is the record of its own calls in the trace; the
  generator is where it was.
\<close>

theorem forward_function_deterministic:
  assumes "\<not> training (model self)"
  shows "fst (forward_function self edges x w1) = fst (forward_function self edges x w2)
         \<and> (\<exists>evs. snd (forward_function self edges x w1) = w1\<lparr>trace := trace w1 @ evs\<rparr>)"
proof -
  from forward_function_eval [OF assms, of edges x]
  obtain r evs where "\<forall>w. forward_function self edges x w = (r, w\<lparr>trace := trace w @ evs\<rparr>)"
    by blast
  then show ?thesis by auto
qed

theorem forward_function_deterministic_witness:
  "\<not> training (model ex_self)
   \<and> fst (forward_function ex_self [(0, 1)] ex_x ex_world)
       = fst (forward_function ex_self [(0, 1)] ex_x (ex_world\<lparr>rng_pos := 7\<rparr>))
   \<and> (\<exists>evs. snd (forward_function ex_self [(0, 1)] ex_x ex_world)
               = ex_world\<lparr>trace := trace ex_world @ evs\<rparr>)"
proof -
  have 1: "\<not> training (model ex_self)"
    by (simp add: ex_self_def ex_model_def)
  from forward_function_deterministic [OF 1, of "[(0, 1)]" ex_x ex_world "ex_world\<lparr>rng_pos := 7\<rparr>"] 1
  show ?thesis by blast
qed

lemma initialize_eval_mode:
  assumes "initialize ev cfg = Inr self"
  shows "\<not> training (model self)"
  using assms by (elim initialize_InrE) (simp add: eval_mode_def)

subsection \<open>Running the concrete deployment\<close>

lemma ret_apply [simp]: "ret x w = (Inr x, w)"
  by (simp add: ret_def)

lemma lift_apply [simp]: "lift r w = (r, w)"
  by (simp add: lift_def)

lemma raise_apply [simp]: "raise e w = (Inl e, w)"
  by (simp add: raise_def)

lemma bind_Pair_Inr [simp]: "bind (Pair (Inr x)) f = f x"
  by (simp add: bind_def)

lemma bind_Pair_Inl [simp]: "bind (Pair (Inl e)) f = Pair (Inl e)"
  by (simp add: bind_def)

lemma forward_ex_x:
  "forward ex_model ex_x [(0, 1)] True w = (Inr (Tensor 3 [[1, 2, 2], [3, 4, 5]]), w)"
  by (simp add: forward_def ex_model_def ex_sd_def ex_x_def SAGEConv_forward_def conv_in_def
      conv_out_def nrows_def edge_ok_def enumerate_eq_zip matvec_def dot_def vadd_def
      mean_agg_def vscale_def relu_def dropout_def cat1_def eval_nat_numeral)

lemma run_request_off:
  "run_request ex_self ex_request_off w
     = (Inr \<lparr>PREDICTION = (''TYPE_FP32'', Tensor 1 [[5], [12]]),
              SHAP_VALUES = (''TYPE_FP32'', Tensor 2 [[0, 0]])\<rparr>,
        w\<lparr>trace := trace w @ [EvEmbed, EvPredict]\<rparr>)"
  by (simp add: run_request_def ex_self_def ex_request_off_def forward_ex_x bind_def
      emit_def predict_def ex_bst_def torch_zeros_def zeros_def column_def eval_nat_numeral)

lemma run_request_bad:
  "run_request ex_self ex_request_bad w = (Inl ShapeError, w\<lparr>trace := trace w @ [EvEmbed]\<rparr>)"
  by (simp add: run_request_def ex_self_def ex_request_bad_def forward_def ex_model_def
      ex_sd_def SAGEConv_forward_def conv_in_def bind_def emit_def lift_def)

subsection \<open>A batch of requests\<close>

lemma execute_loop_append:
  "execute_loop self (a @ b) acc w
     = bind (execute_loop self a acc) (\<lambda>acc'. execute_loop self b acc') w"
proof (induction a arbitrary: acc w)
  case Nil
  show ?case by simp
next
  case (Cons r a)
  show ?case
  proof (cases "run_request self r w")
    case (Pair res w1)
    then show ?thesis
      by (cases res) (simp_all add: bind_def Cons)
  qed
qed

lemma execute_loop_length:
  "execute_loop self rs acc w = (Inr out, w') \<Longrightarrow> length out = length acc + length rs"
proof (induction rs arbitrary: acc w)
  case Nil
  then show ?case by (simp add: ret_def)
next
  case (Cons r rs)
  obtain res w1 where rr: "run_request self r w = (res, w1)"
    by (cases "run_request self r w")
  show ?case
  proof (cases res)
    case (Inl e)
    with rr Cons.prems show ?thesis by (simp add: bind_Inl)
  next
    case (Inr resp)
    with rr Cons.prems have "execute_loop self rs (acc @ [resp]) w1 = (Inr out, w')"
      by (simp add: bind_Inr)
    from Cons.IH [OF this] show ?thesis by simp
  qed
qed

text \<open>
  C5, as the code has it. \<open>execute\<close> has no handler around the body of its loop. If
  the requests before one have been answered and that one raises, during embedding,
  scoring or attribution, then \<open>execute\<close> raises the same error: it returns no list
  of responses, neither a failed response for that request nor the responses already
  built nor any for the requests after it. \<open>execute\<close> assigns nothing to \<open>self\<close>: the
  weights and the ensemble are passed to every request as they are.
\<close>

theorem execute_fails_as_a_whole:
  assumes "execute self before w = (Inr responses, w1)"
    and "run_request self request w1 = (Inl e, w2)"
  shows "execute self (before @ request # after) w = (Inl e, w2)"
  using assms
  by (simp add: execute_def execute_loop_append bind_Inr bind_Inl)

theorem execute_fails_as_a_whole_witness:
  "execute ex_self [ex_request_off] ex_world
     = (Inr [\<lparr>PREDICTION = (''TYPE_FP32'', Tensor 1 [[5], [12]]),
              SHAP_VALUES = (''TYPE_FP32'', Tensor 2 [[0, 0]])\<rparr>],
        ex_world\<lparr>trace := [EvEmbed, EvPredict]\<rparr>)
   \<and> run_request ex_self ex_request_bad (ex_world\<lparr>trace := [EvEmbed, EvPredict]\<rparr>)
     = (Inl ShapeError, ex_world\<lparr>trace := [EvEmbed, EvPredict, EvEmbed]\<rparr>)
   \<and> execute ex_self ([ex_request_off] @ ex_request_bad # [ex_request_off]) ex_world
     = (Inl ShapeError, ex_world\<lparr>trace := [EvEmbed, EvPredict, EvEmbed]\<rparr>)"
proof -
  have 1: "execute ex_self [ex_request_off] ex_world
     = (Inr [\<lparr>PREDICTION = (''TYPE_FP32'', Tensor 1 [[5], [12]]),
              SHAP_VALUES = (''TYPE_FP32'', Tensor 2 [[0, 0]])\<rparr>],
        ex_world\<lparr>trace := [EvEmbed, EvPredict]\<rparr>)"
    by (simp add: execute_def bind_def run_request_off ex_world_def)
  have 2: "run_request ex_self ex_request_bad (ex_world\<lparr>trace := [EvEmbed, EvPredict]\<rparr>)
     = (Inl ShapeError, ex_world\<lparr>trace := [EvEmbed, EvPredict, EvEmbed]\<rparr>)"
    by (simp add: run_request_bad)
  from execute_fails_as_a_whole [OF 1 2, of "[ex_request_off]"] 1 2 show ?thesis
    by simp
qed

text \<open>
  The claim as stated fails: in a batch of a good and a bad request, the good one
  alone is answered, and the batch gets an error and no response.
\<close>

theorem execute_batch_counterexample:
  "fst (run_request ex_self ex_request_off ex_world)
     = Inr \<lparr>PREDICTION = (''TYPE_FP32'', Tensor 1 [[5], [12]]),
            SHAP_VALUES = (''TYPE_FP32'', Tensor 2 [[0, 0]])\<rparr>
   \<and> fst (execute ex_self [ex_request_off, ex_request_bad] ex_world) = Inl ShapeError"
  by (simp add: execute_def bind_def run_request_off run_request_bad)

subsection \<open>Permutations and revealed inputs\<close>

lemma set_pick:
  "length pool = n \<Longrightarrow> set (pick n d pos pool) = set pool"
proof (induction n arbitrary: pool pos)
  case 0
  then show ?case by simp
next
  case (Suc n)
  define i where "i = d pos mod length pool"
  from Suc.prems have i: "i < length pool" by (simp add: i_def)
  let ?rest = "take i pool @ drop (Suc i) pool"
  from i Suc.prems have "length ?rest = n" by simp
  from Suc.IH [OF this] have "set (pick n d (Suc pos) ?rest) = set ?rest" .
  moreover have "set pool = insert (pool ! i) (set ?rest)"
  proof -
    have "pool = take i pool @ pool ! i # drop (Suc i) pool"
      using i by (rule id_take_nth_drop)
    then have "set pool = set (take i pool @ pool ! i # drop (Suc i) pool)" by simp
    then show ?thesis by simp
  qed
  ultimately show ?case
    by (simp add: i_def Let_def)
qed

lemma revealed_row_empty:
  "length fmask = length rrow \<Longrightarrow> length xrow = length rrow
   \<Longrightarrow> revealed_row {} fmask xrow rrow = rrow"
  by (auto simp: revealed_row_def intro!: nth_equalityI)

lemma revealed_row_all:
  "length fmask = length xrow \<Longrightarrow> length rrow = length xrow \<Longrightarrow> set fmask \<subseteq> G
   \<Longrightarrow> revealed_row G fmask xrow rrow = xrow"
  by (auto simp: revealed_row_def subset_iff intro!: nth_equalityI dest: nth_mem)

lemma reveal_row_revealed:
  "length fmask = length xrow \<Longrightarrow> length rrow = length xrow
   \<Longrightarrow> reveal_row fmask g xrow (revealed_row G fmask xrow rrow)
       = revealed_row (insert g G) fmask xrow rrow"
  by (auto simp: revealed_row_def reveal_row_def intro!: nth_equalityI)

lemma length_revealed_row [simp]:
  "length (revealed_row G fmask xrow rrow) = min (length fmask) (min (length xrow) (length rrow))"
  by (simp add: revealed_row_def)

lemma fitsD:
  assumes "fits x t"
  shows "length (trows t) = length (trows x)" "ncols t = ncols x"
    "\<And>i. i < length (trows x) \<Longrightarrow> length (trows t ! i) = ncols x"
  using assms by (auto simp: fits_def shape_def nrows_def wf_tensor_def list_all_length)

lemma revealed_fits:
  assumes "fits x x" "fits x b" "length fmask = ncols x"
  shows "fits x (revealed G fmask x b)"
  using fitsD [OF assms(1)] fitsD [OF assms(2)] assms(3)
  by (auto simp: fits_def revealed_def shape_def nrows_def wf_tensor_def list_all_length)

lemma revealed_empty:
  assumes "fits x x" "fits x b" "length fmask = ncols x"
  shows "revealed {} fmask x b = b"
proof -
  have "map2 (revealed_row {} fmask) (trows x) (trows b) = trows b"
    using fitsD [OF assms(1)] fitsD [OF assms(2)] assms(3)
    by (auto intro!: nth_equalityI simp: revealed_row_empty)
  then show ?thesis by (simp add: revealed_def)
qed

lemma revealed_all:
  assumes "fits x x" "fits x b" "length fmask = ncols x" "set fmask \<subseteq> G"
  shows "revealed G fmask x b = x"
proof -
  have "map2 (revealed_row G fmask) (trows x) (trows b) = trows x"
    using fitsD [OF assms(1)] fitsD [OF assms(2)] assms(3,4)
    by (auto intro!: nth_equalityI simp: revealed_row_all)
  with fitsD(2) [OF assms(2)] show ?thesis
    by (cases x) (simp add: revealed_def)
qed

lemma reveal_revealed:
  assumes "fits x x" "fits x b" "length fmask = ncols x"
  shows "reveal fmask g x (revealed G fmask x b) = revealed (insert g G) fmask x b"
proof -
  have "map2 (reveal_row fmask g) (trows x) (map2 (revealed_row G fmask) (trows x) (trows b))
        = map2 (revealed_row (insert g G) fmask) (trows x) (trows b)"
    using fitsD [OF assms(1)] fitsD [OF assms(2)] assms(3)
    by (auto intro!: nth_equalityI simp: reveal_row_revealed)
  then show ?thesis by (simp add: revealed_def reveal_def)
qed

subsection \<open>Walks and samples over a scoring function that is a function\<close>

lemma nth_vsub:
  "i < length u \<Longrightarrow> i < length v \<Longrightarrow> vsub u v ! i = u ! i - v ! i"
  by (simp add: vsub_def)

lemma walk_revealed:
  assumes fpure: "\<And>t w. fits x t \<Longrightarrow> \<exists>w'. f t w = (Inr (F t), w')"
    and flen: "\<And>t. fits x t \<Longrightarrow> length (F t) = nrows x"
    and fx: "fits x x" and fb: "fits x b" and lm: "length fmask = ncols x"
  shows "\<exists>cs w'. walk f x fmask gs (revealed G fmask x b) (F (revealed G fmask x b)) w
                    = (Inr cs, w')
           \<and> map fst cs = gs
           \<and> (\<forall>i<nrows x. sum_list (map (\<lambda>(g, v). v ! i) cs)
                  = F (revealed (G \<union> set gs) fmask x b) ! i - F (revealed G fmask x b) ! i)"
proof (induction gs arbitrary: G w)
  case Nil
  show ?case by simp
next
  case (Cons g gs)
  let ?r = "revealed G fmask x b"
  let ?r' = "revealed (insert g G) fmask x b"
  have step: "reveal fmask g x ?r = ?r'"
    by (rule reveal_revealed [OF fx fb lm])
  have fr: "fits x ?r" and fr': "fits x ?r'"
    by (rule revealed_fits [OF fx fb lm])+
  from fpure [OF fr', of w] obtain w1 where w1: "f ?r' w = (Inr (F ?r'), w1)"
    by blast
  from Cons [of "insert g G" w1] obtain cs w' where
    cs: "walk f x fmask gs ?r' (F ?r') w1 = (Inr cs, w')" "map fst cs = gs"
    and tel: "\<forall>i<nrows x. sum_list (map (\<lambda>(g, v). v ! i) cs)
               = F (revealed (insert g G \<union> set gs) fmask x b) ! i - F ?r' ! i"
    by blast
  have "walk f x fmask (g # gs) ?r (F ?r) w = (Inr ((g, vsub (F ?r') (F ?r)) # cs), w')"
    using w1 cs(1) by (simp add: step bind_Inr)
  moreover have "\<forall>i<nrows x. sum_list (map (\<lambda>(g, v). v ! i) ((g, vsub (F ?r') (F ?r)) # cs))
       = F (revealed (G \<union> set (g # gs)) fmask x b) ! i - F ?r ! i"
    using tel flen [OF fr] flen [OF fr'] by (simp add: nth_vsub)
  ultimately show ?case
    using cs(2) by simp
qed

lemma randperm_set:
  "\<exists>perm w'. randperm pool w = (Inr perm, w') \<and> set perm = set pool"
  by (simp add: randperm_def set_pick)

lemma samples_ok:
  assumes fpure: "\<And>t w. fits x t \<Longrightarrow> \<exists>w'. f t w = (Inr (F t), w')"
    and flen: "\<And>t. fits x t \<Longrightarrow> length (F t) = nrows x"
    and fx: "fits x x" and fb: "fits x b" and lm: "length fmask = ncols x"
  shows "\<exists>cs w'. samples n f x b fmask (F b) w = (Inr cs, w') \<and> length cs = n
           \<and> list_all (sample_ok fmask (nrows x) (\<lambda>i. F x ! i - F b ! i)) cs"
proof (induction n arbitrary: w)
  case 0
  show ?case by simp
next
  case (Suc n)
  from randperm_set [of "remdups fmask" w] obtain perm w1 where
    p: "randperm (remdups fmask) w = (Inr perm, w1)" "set perm = set fmask"
    by auto
  have b: "revealed {} fmask x b = b"
    by (rule revealed_empty [OF fx fb lm])
  from walk_revealed [of x f F b fmask perm "{}" w1, OF fpure flen fx fb lm]
  obtain c w2 where c: "walk f x fmask perm b (F b) w1 = (Inr c, w2)" "map fst c = perm"
    and tel: "\<forall>i<nrows x. sum_list (map (\<lambda>(g, v). v ! i) c)
                = F (revealed (set perm) fmask x b) ! i - F b ! i"
    by (auto simp: b)
  have "revealed (set perm) fmask x b = x"
    using p(2) by (intro revealed_all [OF fx fb lm]) simp
  with tel c(2) p(2) have ok: "sample_ok fmask (nrows x) (\<lambda>i. F x ! i - F b ! i) c"
    by (simp add: sample_ok_def)
  from Suc [of w2] obtain cs w' where
    cs: "samples n f x b fmask (F b) w2 = (Inr cs, w')" "length cs = n"
      "list_all (sample_ok fmask (nrows x) (\<lambda>i. F x ! i - F b ! i)) cs"
    by blast
  have "samples (Suc n) f x b fmask (F b) w = (Inr (c # cs), w')"
    using p(1) c(1) cs(1) by (simp add: bind_Inr)
  with ok cs(2,3) show ?case by simp
qed

subsection \<open>Sums of attributions\<close>

lemma sum_list_pick_none:
  "h \<notin> set xs \<Longrightarrow> sum_list (map (\<lambda>g. if h = g then a else 0) xs) = (0::real)"
  by (induction xs) auto

lemma sum_list_pick_one:
  "distinct xs \<Longrightarrow> h \<in> set xs
   \<Longrightarrow> sum_list (map (\<lambda>g. if h = g then a else 0) xs) = (a::real)"
  by (induction xs) (auto simp: sum_list_pick_none)

lemma sum_list_zeros: "sum_list (map (\<lambda>g. 0::real) xs) = 0"
  by (induction xs) simp_all

lemma group_sum_distinct:
  fixes c :: "(int \<times> real list) list"
  assumes "distinct fmask" and "set (map fst c) \<subseteq> set fmask"
  shows "sum_list (map (\<lambda>g. sum_list (map (\<lambda>(h, v). if h = g then v ! i else 0) c)) fmask)
         = sum_list (map (\<lambda>(h, v). v ! i) c)"
  using assms(2)
proof (induction c)
  case Nil
  show ?case by (simp add: sum_list_zeros)
next
  case (Cons p c)
  obtain h v where p: "p = (h, v)" by (cases p)
  with Cons.prems have h: "h \<in> set fmask" and rest: "set (map fst c) \<subseteq> set fmask"
    by simp_all
  have "sum_list (map (\<lambda>g. sum_list (map (\<lambda>(h, v). if h = g then v ! i else 0) (p # c))) fmask)
        = sum_list (map (\<lambda>g. (if h = g then v ! i else 0)
            + sum_list (map (\<lambda>(h, v). if h = g then v ! i else 0) c)) fmask)"
    by (simp add: p)
  also have "\<dots> = sum_list (map (\<lambda>g. if h = g then v ! i else 0) fmask)
          + sum_list (map (\<lambda>g. sum_list (map (\<lambda>(h, v). if h = g then v ! i else 0) c)) fmask)"
    by (rule sum_list_addf)
  also have "\<dots> = v ! i + sum_list (map (\<lambda>(h, v). v ! i) c)"
    by (simp add: sum_list_pick_one [OF assms(1) h] Cons.IH [OF rest])
  finally show ?case by (simp add: p)
qed

lemma group_total_sum:
  assumes "distinct fmask"
    and "list_all (sample_ok fmask n D) cs" and "i < n"
  shows "sum_list (map (group_total cs i) fmask) = real (length cs) * D i"
  using assms(2)
proof (induction cs)
  case Nil
  show ?case by (simp add: group_total_def sum_list_zeros)
next
  case (Cons c cs)
  then have ok: "sample_ok fmask n D c" and cs: "list_all (sample_ok fmask n D) cs"
    by simp_all
  from ok assms(3) have c: "set (map fst c) \<subseteq> set fmask"
    "sum_list (map (\<lambda>(g, v). v ! i) c) = D i"
    by (simp_all add: sample_ok_def)
  have "sum_list (map (group_total (c # cs) i) fmask)
        = sum_list (map (\<lambda>g. sum_list (map (\<lambda>(h, v). if h = g then v ! i else 0) c)
            + group_total cs i g) fmask)"
    unfolding group_total_def by simp
  also have "\<dots> = sum_list (map (\<lambda>g. sum_list (map (\<lambda>(h, v). if h = g then v ! i else 0) c)) fmask)
          + sum_list (map (group_total cs i) fmask)"
    by (rule sum_list_addf)
  also have "\<dots> = D i + real (length cs) * D i"
    by (simp add: group_sum_distinct [OF assms(1) c(1)] c(2) Cons.IH [OF cs])
  finally show ?case by (simp add: algebra_simps)
qed

lemma attributions_row_sum:
  assumes "distinct fmask" and "list_all (sample_ok fmask n D) cs" and "i < n" and "cs \<noteq> []"
  shows "sum_list (trows (attributions_of cs fmask n width) ! i) = D i"
proof -
  have "sum_list (map (\<lambda>g. group_total cs i g / real (length cs)) fmask)
        = sum_list (map (group_total cs i) fmask) / real (length cs)"
    by (simp add: divide_inverse sum_list_mult_const)
  also have "\<dots> = D i"
    using assms(4) by (simp add: group_total_sum [OF assms(1,2,3)])
  finally show ?thesis
    using assms(3) by (simp add: attributions_of_def)
qed

lemma shape_attributions_of [simp]:
  "shape (attributions_of cs fmask n width) = (n, width)"
  by (simp add: attributions_of_def shape_def nrows_def)

lemma attribute_result:
  assumes fpure: "\<And>t w. fits x t \<Longrightarrow> \<exists>w'. f t w = (Inr (F t), w')"
    and flen: "\<And>t. fits x t \<Longrightarrow> length (F t) = nrows x"
    and fx: "fits x x" and fb: "fits x b" and lm: "length fmask = ncols x"
    and n: "1 \<le> n_samples"
  shows "\<exists>cs w'. attribute f x b fmask n_samples w
                    = (Inr (attributions_of cs fmask (nrows x) (ncols x)), w')
           \<and> length cs = nat n_samples
           \<and> list_all (sample_ok fmask (nrows x) (\<lambda>i. F x ! i - F b ! i)) cs"
proof -
  let ?w = "w\<lparr>trace := trace w @ [EvAttribute n_samples]\<rparr>"
  from fpure [OF fb, of ?w] obtain w1 where w1: "f b ?w = (Inr (F b), w1)"
    by blast
  from samples_ok [of x f F b fmask "nat n_samples" w1, OF fpure flen fx fb lm]
  obtain cs w' where cs: "samples (nat n_samples) f x b fmask (F b) w1 = (Inr cs, w')"
    "length cs = nat n_samples"
    "list_all (sample_ok fmask (nrows x) (\<lambda>i. F x ! i - F b ! i)) cs"
    by blast
  have "shape b = shape x"
    using fb by (simp add: fits_def)
  then have "attribute f x b fmask n_samples w
       = (Inr (attributions_of cs fmask (nrows x) (ncols x)), w')"
    using n lm w1 cs(1) by (simp add: attribute_def bind_Inr)
  with cs(2,3) show ?thesis by blast
qed

lemma fits_zeros_like:
  "fits x x \<Longrightarrow> fits x (zeros_like x)"
  by (simp add: fits_def zeros_like_def wf_tensor_def shape_def nrows_def list_all_iff)

lemma all_zero_zeros_like: "all_zero (zeros_like x)"
  by (simp add: all_zero_def zeros_like_def list_all_iff)

subsection \<open>The model that startup builds, and its scoring function\<close>

lemma layer_ok_new: "layer_ok i out (new_SAGEConv i out)"
  by (simp add: layer_ok_def new_SAGEConv_def conv_shape_def shape_def nrows_def zeros_def
      wf_conv_def wf_tensor_def list_all_iff)

lemma chain_ok_replicate: "layer_ok out out c \<Longrightarrow> chain_ok out out (replicate k c)"
  by (induction k) simp_all

lemma chain_ok_shapes:
  "map conv_shape cs = map conv_shape cs' \<Longrightarrow> list_all wf_conv cs \<Longrightarrow> chain_ok i out cs'
   \<Longrightarrow> chain_ok i out cs"
proof (induction cs arbitrary: cs' i)
  case Nil
  then show ?case by simp
next
  case (Cons c cs)
  then obtain c' cs'' where "cs' = c' # cs''" by (cases cs') auto
  with Cons show ?case by (auto simp: layer_ok_def)
qed

lemma initialize_ready:
  assumes "initialize ev cfg = Inr self"
  shows "ready self"
proof -
  from assms obtain m0 sd m1 where
    init: "GraphSAGE_init (in_channels self) (hidden_channels self) (out_channels self)
       (n_layers self) = Inr m0"
    and load: "load_state_dict m0 sd = Inr m1"
    and m: "model self = eval_mode m1"
    by (elim initialize_InrE)
  from init have nonneg: "0 \<le> in_channels self" "0 \<le> hidden_channels self"
    and m0: "gs_in_channels m0 = in_channels self" "gs_hidden_channels m0 = hidden_channels self"
      "convs m0 = new_SAGEConv (nat (in_channels self)) (nat (hidden_channels self))
         # replicate (nat (n_layers self - 1))
             (new_SAGEConv (nat (hidden_channels self)) (nat (hidden_channels self)))"
    by (auto simp: GraphSAGE_init_def split: if_splits)
  have ch0: "chain_ok (nat (in_channels self)) (nat (hidden_channels self)) (convs m0)"
    by (simp add: m0(3) layer_ok_new chain_ok_replicate)
  from load have m1: "m1 = m0\<lparr>convs := sd_convs sd, fc := sd_fc sd\<rparr>"
    and sh: "map conv_shape (sd_convs sd) = map conv_shape (convs m0)"
    and wf: "list_all wf_conv (sd_convs sd)"
    by (auto simp: load_state_dict_def split: if_splits)
  from sh m0(3) have ne: "sd_convs sd \<noteq> []" by auto
  from chain_ok_shapes [OF sh wf ch0] ne nonneg m0(1,2) show ?thesis
    by (simp add: ready_def wf_GraphSAGE_def m m1 eval_mode_def)
qed

lemma forward_hidden:
  assumes "wf_GraphSAGE m" and "wf_tensor x" and "ncols x = nat (gs_in_channels m)"
    and "list_all (edge_ok (nrows x)) edges"
  shows "\<exists>h w'. conv_loop m (convs m) edges x w = (Inr h, w')
           \<and> forward m x edges True w
               = (Inr (Tensor (ncols x + ncols h) (map2 (@) (trows x) (trows h))), w')
           \<and> nrows h = nrows x \<and> ncols h = nat (gs_hidden_channels m) \<and> wf_tensor h"
proof -
  from assms have ch: "chain_ok (nat (gs_in_channels m)) (nat (gs_hidden_channels m)) (convs m)"
    and ne: "convs m \<noteq> []"
    by (simp_all add: wf_GraphSAGE_def)
  from conv_loop_shape [OF ch assms(3) assms(4), of m w] ne assms(2)
  obtain h w' where h: "conv_loop m (convs m) edges x w = (Inr h, w')" "nrows h = nrows x"
    "ncols h = nat (gs_hidden_channels m)" "wf_tensor h"
    by auto
  then have "forward m x edges True w
      = (Inr (Tensor (ncols x + ncols h) (map2 (@) (trows x) (trows h))), w')"
    by (simp add: forward_def bind_Inr cat1_def)
  with h show ?thesis by blast
qed

lemma forward_function_scores:
  assumes "ready self" and "widths_agree self"
    and "wf_tensor t" and "ncols t = nat (in_channels self)"
    and "list_all (edge_ok (nrows t)) edges"
  shows "\<exists>v. length v = nrows t
           \<and> (\<forall>w. forward_function self edges t w
                     = (Inr v, w\<lparr>trace := trace w @ [EvEmbed, EvPredict]\<rparr>))"
proof -
  let ?m = "model self"
  from assms(1) have wf: "wf_GraphSAGE ?m" and ev: "\<not> training ?m"
    and ch: "gs_in_channels ?m = in_channels self" "gs_hidden_channels ?m = hidden_channels self"
    by (simp_all add: ready_def)
  from forward_eval [OF ev, of t edges True] obtain r where
    r: "\<forall>w. forward ?m t edges True w = (r, w)"
    by blast
  from forward_hidden [OF wf assms(3) _ assms(5), of fresh_world] assms(4) ch r
  obtain h where h: "r = Inr (Tensor (ncols t + ncols h) (map2 (@) (trows t) (trows h)))"
    "nrows h = nrows t" "ncols h = nat (hidden_channels self)"
    by auto
  let ?emb = "Tensor (ncols t + ncols h) (map2 (@) (trows t) (trows h))"
  let ?v = "map (bst_row_score (bst self)) (trows ?emb)"
  have p: "predict (bst self) ?emb = Inr ?v"
    using assms(2,4) h(3) by (simp add: predict_def widths_agree_def)
  have "length ?v = nrows t"
    using h(2) by (simp add: nrows_def)
  moreover have "\<forall>w. forward_function self edges t w
       = (Inr ?v, w\<lparr>trace := trace w @ [EvEmbed, EvPredict]\<rparr>)"
    using r h(1) p by (simp add: forward_function_def bind_def emit_def)
  ultimately show ?thesis by blast
qed

lemma forward_function_scoring_fn:
  assumes "ready self" and "widths_agree self"
    and "wf_tensor t" and "ncols t = nat (in_channels self)"
    and "list_all (edge_ok (nrows t)) edges"
  shows "forward_function self edges t w
           = (Inr (scoring_fn self edges t), w\<lparr>trace := trace w @ [EvEmbed, EvPredict]\<rparr>)"
    and "length (scoring_fn self edges t) = nrows t"
proof -
  from forward_function_scores [OF assms] obtain v where
    v: "length v = nrows t"
      "\<forall>w. forward_function self edges t w
             = (Inr v, w\<lparr>trace := trace w @ [EvEmbed, EvPredict]\<rparr>)"
    by blast
  then have "scoring_fn self edges t = v"
    by (simp add: scoring_fn_def)
  with v show "forward_function self edges t w
           = (Inr (scoring_fn self edges t), w\<lparr>trace := trace w @ [EvEmbed, EvPredict]\<rparr>)"
    and "length (scoring_fn self edges t) = nrows t"
    by simp_all
qed

end
